theory Spec2Isabelle
  imports Main
begin

section \<open>Values of the Terraform plugin framework\<close>

text \<open>
  A \<^verbatim>\<open>types.String\<close> is null, unknown or a known Go string; \<^verbatim>\<open>ValueString\<close>
  gives the empty string for the first two. \<^verbatim>\<open>types.Bool\<close> is alike, with
  \<^verbatim>\<open>false\<close> as the default of \<^verbatim>\<open>ValueBool\<close>.
\<close>

datatype tfString = StringNull | StringUnknown | StringValue string

fun IsNull :: "tfString \<Rightarrow> bool" where
  "IsNull StringNull = True"
| "IsNull _ = False"

fun IsUnknown :: "tfString \<Rightarrow> bool" where
  "IsUnknown StringUnknown = True"
| "IsUnknown _ = False"

fun ValueString :: "tfString \<Rightarrow> string" where
  "ValueString (StringValue s) = s"
| "ValueString _ = []"

datatype tfBool = BoolNull | BoolUnknown | BoolValue bool

fun ValueBool :: "tfBool \<Rightarrow> bool" where
  "ValueBool (BoolValue b) = b"
| "ValueBool _ = False"

section \<open>Diagnostics\<close>

text \<open>
  A diagnostic has a severity, a summary and a detail, and an attribute path when it was
  made by \<^verbatim>\<open>AddAttributeError\<close>. \<^verbatim>\<open>Diagnostics.Append\<close> adds its arguments in order
  and skips one that the collection already contains; \<^verbatim>\<open>AddError\<close> and
  \<^verbatim>\<open>AddAttributeError\<close> append one new error diagnostic; \<^verbatim>\<open>HasError\<close> holds when
  some member has error severity.
\<close>

datatype severity = SeverityError | SeverityWarning

record diagnostic =
  Severity :: severity
  AttributePath :: "string option"
  Summary :: string
  Detail :: string

type_synonym diagnostics = "diagnostic list"

fun Append :: "diagnostics \<Rightarrow> diagnostics \<Rightarrow> diagnostics" where
  "Append diags [] = diags"
| "Append diags (d # ds) = Append (if d \<in> set diags then diags else diags @ [d]) ds"

definition NewErrorDiagnostic :: "string \<Rightarrow> string \<Rightarrow> diagnostic" where
  "NewErrorDiagnostic summary detail =
     \<lparr>Severity = SeverityError, AttributePath = None, Summary = summary, Detail = detail\<rparr>"

definition NewAttributeErrorDiagnostic :: "string \<Rightarrow> string \<Rightarrow> string \<Rightarrow> diagnostic" where
  "NewAttributeErrorDiagnostic path summary detail =
     \<lparr>Severity = SeverityError, AttributePath = Some path, Summary = summary, Detail = detail\<rparr>"

definition AddError :: "diagnostics \<Rightarrow> string \<Rightarrow> string \<Rightarrow> diagnostics" where
  "AddError diags summary detail = Append diags [NewErrorDiagnostic summary detail]"

definition AddAttributeError :: "diagnostics \<Rightarrow> string \<Rightarrow> string \<Rightarrow> string \<Rightarrow> diagnostics" where
  "AddAttributeError diags path summary detail =
     Append diags [NewAttributeErrorDiagnostic path summary detail]"

definition Errors :: "diagnostics \<Rightarrow> diagnostics" where
  "Errors diags = filter (\<lambda>d. Severity d = SeverityError) diags"

definition HasError :: "diagnostics \<Rightarrow> bool" where
  "HasError diags = (Errors diags \<noteq> [])"

section \<open>Go library functions used by the provider\<close>

text \<open>
  \<^verbatim>\<open>strings.HasPrefix\<close>, \<^verbatim>\<open>strings.Index\<close> (\<open>None\<close> for \<^verbatim>\<open>-1\<close>) and
  \<^verbatim>\<open>strings.Replace(s, old, new, -1)\<close> on byte strings. \<^verbatim>\<open>Replace\<close> returns \<open>s\<close>
  itself when \<open>old\<close> and \<open>new\<close> are equal or \<open>old\<close> does not occur; otherwise it copies
  \<open>s\<close> up to the first occurrence, writes \<open>new\<close>, and goes on behind the occurrence.
  The provider calls it with the two-character literal \<^verbatim>\<open>`\r`\<close> as \<open>old\<close> only; Go's
  case of an empty \<open>old\<close> with a non-empty \<open>new\<close> (insertion at every rune boundary) is
  not part of this model, which returns \<open>s\<close> there.
\<close>

fun HasPrefix :: "string \<Rightarrow> string \<Rightarrow> bool" where
  "HasPrefix s [] = True"
| "HasPrefix [] (p # ps) = False"
| "HasPrefix (c # cs) (p # ps) = (c = p \<and> HasPrefix cs ps)"

fun Index :: "string \<Rightarrow> string \<Rightarrow> nat option" where
  "Index [] substr = (if substr = [] then Some 0 else None)"
| "Index (c # cs) substr =
     (if HasPrefix (c # cs) substr then Some 0 else map_option Suc (Index cs substr))"

function Replace :: "string \<Rightarrow> string \<Rightarrow> string \<Rightarrow> string" where
  "Replace s old new =
     (if old = new \<or> old = [] then s
      else case Index s old of
             None \<Rightarrow> s
           | Some j \<Rightarrow> take j s @ new @ Replace (drop (j + length old) s) old new)"
  by pat_completeness auto
termination
proof (relation "measure (\<lambda>(s, old, new). length s)")
  show "wf (measure (\<lambda>(s, old, new). length s))"
    by simp
next
  fix s old new :: string and j :: nat
  assume a: "\<not> (old = new \<or> old = [])" and i: "Index s old = Some j"
  from a have "0 < length old"
    by simp
  moreover from a i have "s \<noteq> []"
    by (cases s) auto
  ultimately show "((drop (j + length old) s, old, new), (s, old, new))
      \<in> measure (\<lambda>(s, old, new). length s)"
    by simp
qed

declare Replace.simps [simp del]

text \<open>The raw string literal \<^verbatim>\<open>`\r`\<close>: a backslash followed by the letter r.\<close>

definition backslash_r :: string where
  "backslash_r = [CHR 0x5C, CHR ''r'']"

text \<open>
  \<^verbatim>\<open>fmt.Sprintf("%d", p)\<close> for a pointer \<open>p\<close> prints the address as an unsigned
  decimal number, digit by digit from the table of digits.
\<close>

function FormatUint :: "nat \<Rightarrow> string" where
  "FormatUint n =
     (if n < 10 then [''0123456789'' ! n]
      else FormatUint (n div 10) @ [''0123456789'' ! (n mod 10)])"
  by pat_completeness auto
termination
  by (relation "measure id") auto

declare FormatUint.simps [simp del]

section \<open>The ADCS client library\<close>

text \<open>
  The client library is an outside collaborator. A configured \<^verbatim>\<open>*client.ADCSClient\<close>
  is the pair of its two remote operations; each returns the text of its error
  (\<^verbatim>\<open>err.Error()\<close>, on the left) or a certificate. The remote calls an operation of
  the provider makes are recorded, in order, beside its response.
\<close>

record Certificate =
  ID :: string
  CertificateB64 :: string
  CertificateChainB64 :: string

record ADCSClient =
  RequestCertificate :: "string \<Rightarrow> string \<Rightarrow> string \<Rightarrow> string + Certificate"
  RetrieveCertificates :: "string \<Rightarrow> string + Certificate"

datatype clientCall =
  RequestCertificateCall string string string
| RetrieveCertificatesCall string

record ClientConfig =
  Host :: string
  Username :: string
  Password :: string
  Krb5Conf :: string
  Ntlm :: bool

section \<open>Requests and responses\<close>

text \<open>
  A request carries what \<^verbatim>\<open>req.Plan.Get\<close>, \<^verbatim>\<open>req.State.Get\<close> or
  \<^verbatim>\<open>req.Config.Get\<close> decodes into the model struct, with the diagnostics of that
  decoding. A response holds the state (\<open>None\<close> while none is set) and the diagnostics
  collected so far. \<^verbatim>\<open>resp.State.Set\<close> of a model whose fields are all
  \<^verbatim>\<open>types.String\<close> under the schema's own attribute names stores it and reports
  nothing. Logging through \<^verbatim>\<open>tflog\<close> changes neither and is left out.
\<close>

record 'm Request =
  Decoded :: 'm
  GetDiags :: diagnostics

record 'm Response =
  State :: "'m option"
  Diagnostics :: diagnostics

section \<open>The certificate data source\<close>

record certificateModel =
  ID :: tfString
  CertificateB64 :: tfString
  CertificateChainB64 :: tfString

text \<open>
  \<^verbatim>\<open>certificateDataSource.Read\<close>. The summary of its error is formatted with
  \<^verbatim>\<open>%d\<close> from the address of the local variable \<^verbatim>\<open>reqID\<close>, the parameter
  \<open>addr\<close> here.
\<close>

definition certificateDataSource_Read ::
  "ADCSClient \<Rightarrow> nat \<Rightarrow> certificateModel Request \<Rightarrow> certificateModel Response
     \<Rightarrow> certificateModel Response \<times> clientCall list" where
  "certificateDataSource_Read client addr req resp =
     (let data = Decoded req;
          diags = Append (Diagnostics resp) (GetDiags req);
          reqID = ValueString (certificateModel.ID data)
      in case RetrieveCertificates client reqID of
           Inl err \<Rightarrow>
             (resp\<lparr>Diagnostics :=
                AddError diags (''Unable to Read certificates for '' @ FormatUint addr) err\<rparr>,
              [RetrieveCertificatesCall reqID])
         | Inr certificates \<Rightarrow>
             (let state = \<lparr>certificateModel.ID = StringValue (Certificate.ID certificates),
                           certificateModel.CertificateB64 =
                             StringValue (Certificate.CertificateB64 certificates),
                           certificateModel.CertificateChainB64 =
                             StringValue (Certificate.CertificateChainB64 certificates)\<rparr>
              in (resp\<lparr>State := Some state, Diagnostics := diags\<rparr>,
                  [RetrieveCertificatesCall reqID])))"

section \<open>The certificate resource\<close>

record certificateCreateModel =
  ID :: tfString
  Attributes :: tfString
  CSR :: tfString
  Template :: tfString
  CertificateB64 :: tfString
  CertificateChainB64 :: tfString
  LastUpdated :: tfString

text \<open>
  \<^verbatim>\<open>certificateResource.Create\<close>; \<open>now\<close> is
  \<^verbatim>\<open>time.Now().Format(time.RFC850)\<close> at the call. The diagnostics of
  \<^verbatim>\<open>req.Plan.Get\<close> are appended and not tested before the remote call.
\<close>

definition certificateResource_Create ::
  "ADCSClient \<Rightarrow> string \<Rightarrow> certificateCreateModel Request \<Rightarrow> certificateCreateModel Response
     \<Rightarrow> certificateCreateModel Response \<times> clientCall list" where
  "certificateResource_Create client now req resp =
     (let plan = Decoded req;
          diags = Append (Diagnostics resp) (GetDiags req);
          attr = (if \<not> IsNull (Attributes plan) \<and> \<not> IsUnknown (Attributes plan)
                  then ValueString (Attributes plan) else []);
          csr = ValueString (CSR plan);
          template = ValueString (Template plan)
      in case RequestCertificate client csr template attr of
           Inl err \<Rightarrow>
             (resp\<lparr>Diagnostics :=
                AddError diags ''Error creating certificate from singing request''
                  (''Could not create certificate, unexpected error: '' @ err)\<rparr>,
              [RequestCertificateCall csr template attr])
         | Inr certificates \<Rightarrow>
             (let plan' = plan\<lparr>certificateCreateModel.ID :=
                                 StringValue (Certificate.ID certificates),
                               certificateCreateModel.CertificateB64 :=
                                 StringValue (Certificate.CertificateB64 certificates),
                               certificateCreateModel.CertificateChainB64 :=
                                 StringValue (Certificate.CertificateChainB64 certificates),
                               LastUpdated := StringValue now\<rparr>
              in (resp\<lparr>State := Some plan', Diagnostics := diags\<rparr>,
                  [RequestCertificateCall csr template attr])))"

text \<open>\<^verbatim>\<open>certificateResource.Read\<close>.\<close>

definition certificateResource_Read ::
  "ADCSClient \<Rightarrow> certificateCreateModel Request \<Rightarrow> certificateCreateModel Response
     \<Rightarrow> certificateCreateModel Response \<times> clientCall list" where
  "certificateResource_Read client req resp =
     (let state = Decoded req;
          diags = Append (Diagnostics resp) (GetDiags req)
      in if HasError diags then (resp\<lparr>Diagnostics := diags\<rparr>, [])
         else
           (let reqID = ValueString (certificateCreateModel.ID state)
            in case RetrieveCertificates client reqID of
                 Inl err \<Rightarrow>
                   (resp\<lparr>Diagnostics :=
                      AddError diags ''Error Reading Certificate''
                        (''Could not read Certificate ID ''
                           @ ValueString (certificateCreateModel.ID state) @ '':'' @ err)\<rparr>,
                    [RetrieveCertificatesCall reqID])
               | Inr certificates \<Rightarrow>
                   (let state' = state\<lparr>certificateCreateModel.ID :=
                                         StringValue (Certificate.ID certificates),
                                       certificateCreateModel.CertificateB64 :=
                                         StringValue (Replace
                                           (Certificate.CertificateB64 certificates)
                                           backslash_r []),
                                       certificateCreateModel.CertificateChainB64 :=
                                         StringValue (Replace
                                           (Certificate.CertificateChainB64 certificates)
                                           backslash_r [])\<rparr>
                    in (resp\<lparr>State := Some state', Diagnostics := diags\<rparr>,
                        [RetrieveCertificatesCall reqID]))))"

text \<open>\<^verbatim>\<open>certificateResource.Update\<close> and \<^verbatim>\<open>certificateResource.Delete\<close>: empty bodies.\<close>

definition certificateResource_Update ::
  "ADCSClient \<Rightarrow> certificateCreateModel Request \<Rightarrow> certificateCreateModel Response
     \<Rightarrow> certificateCreateModel Response \<times> clientCall list" where
  "certificateResource_Update client req resp = (resp, [])"

definition certificateResource_Delete ::
  "ADCSClient \<Rightarrow> certificateCreateModel Request \<Rightarrow> certificateCreateModel Response
     \<Rightarrow> certificateCreateModel Response \<times> clientCall list" where
  "certificateResource_Delete client req resp = (resp, [])"

section \<open>The provider configuration\<close>

record MicrosoftADCSProviderModel =
  Host :: tfString
  Username :: tfString
  Password :: tfString
  Krb5Conf :: tfString
  Ntlm :: tfBool

text \<open>
  The response of \<^verbatim>\<open>Configure\<close>: its diagnostics and the client handed to the data
  sources and resources (\<open>None\<close> while not set).
\<close>

record 'c ConfigureResponse =
  Diagnostics :: diagnostics
  DataSourceData :: "'c option"
  ResourceData :: "'c option"

text \<open>
  The six diagnostics that \<^verbatim>\<open>Configure\<close> adds with \<^verbatim>\<open>AddAttributeError\<close>, three for
  unknown values and three for missing values, each with its path, summary and detail.
  Adding one is \<open>Append diags [d]\<close>, which is \<open>AddAttributeError\<close> unfolded.
\<close>

definition Unknown_Host :: diagnostic where
  "Unknown_Host = NewAttributeErrorDiagnostic ''host''
     ''Unknown Active Directory Certificate Services Host''
     (''The provider cannot create the ADCS API client as there is an unknown configuration value for the ADCS host. ''
      @ ''Either target apply the source of the value first, set the value statically in the configuration, or use the ADCS_HOST environment variable.'')"

definition Unknown_Username :: diagnostic where
  "Unknown_Username = NewAttributeErrorDiagnostic ''username''
     ''Unknown Active Directory Certificate Services Username''
     (''The provider cannot create the ADCS API client as there is an unknown configuration value for the ADCS username. ''
      @ ''Either target apply the source of the value first, set the value statically in the configuration, or use the ADCS_USERNAME environment variable.'')"

definition Unknown_Password :: diagnostic where
  "Unknown_Password = NewAttributeErrorDiagnostic ''password''
     ''Unknown Active Directory Certificate Services Password''
     (''The provider cannot create the ADCS API client as there is an unknown configuration value for the ADCS password. ''
      @ ''Either target apply the source of the value first, set the value statically in the configuration, or use the ADCS_PASSWORD environment variable.'')"

definition Missing_Host :: diagnostic where
  "Missing_Host = NewAttributeErrorDiagnostic ''host''
     ''Missing Active Directory Certificate Services Host''
     (''The provider cannot create the ADCS API client as there is a missing or empty value for the ADCS API host. ''
      @ ''Set the host value in the configuration or use the ADCS_HOST environment variable. ''
      @ ''If either is already set, ensure the value is not empty.'')"

definition Missing_Username :: diagnostic where
  "Missing_Username = NewAttributeErrorDiagnostic ''username''
     ''Missing Active Directory Certificate Services Username''
     (''The provider cannot create the ADCS API client as there is a missing or empty value for the ADCS username. ''
      @ ''Set the username value in the configuration or use the ADCS_USERNAME environment variable. ''
      @ ''If either is already set, ensure the value is not empty.'')"

definition Missing_Password :: diagnostic where
  "Missing_Password = NewAttributeErrorDiagnostic ''password''
     ''Missing Active Directory Certificate Services Password''
     (''The provider cannot create the ADCS API client as there is a missing or empty value for the ADCS password. ''
      @ ''Set the password value in the configuration or use the ADCS_PASSWORD environment variable. ''
      @ ''If either is already set, ensure the value is not empty.'')"

text \<open>
  The part of \<^verbatim>\<open>Configure\<close> that reports unknown values (one \<^verbatim>\<open>if\<close> per
  attribute, in the order host, username, password).
\<close>

definition Configure_unknown :: "MicrosoftADCSProviderModel \<Rightarrow> diagnostics \<Rightarrow> diagnostics" where
  "Configure_unknown config diags =
     (let d1 = (if IsUnknown (MicrosoftADCSProviderModel.Host config)
                then Append diags [Unknown_Host] else diags);
          d2 = (if IsUnknown (MicrosoftADCSProviderModel.Username config)
                then Append d1 [Unknown_Username] else d1);
          d3 = (if IsUnknown (MicrosoftADCSProviderModel.Password config)
                then Append d2 [Unknown_Password] else d2)
      in d3)"

text \<open>
  The part that takes each value from the environment and overrides it with the
  configuration's value when that is not null. \<open>Getenv\<close> is \<^verbatim>\<open>os.Getenv\<close>, the empty
  string for a variable that is not set. The five locals are the fields of the
  \<^verbatim>\<open>client.ClientConfig\<close> built from them further down.
\<close>

definition Configure_values ::
  "(string \<Rightarrow> string) \<Rightarrow> MicrosoftADCSProviderModel \<Rightarrow> ClientConfig" where
  "Configure_values Getenv config =
     (let host = Getenv ''ADCS_HOST'';
          username = Getenv ''ADCS_USERNAME'';
          password = Getenv ''ADCS_PASSWORD'';
          krb5conf = Getenv ''ADCS_KRB5CONF'';
          useNtlm = ValueBool (MicrosoftADCSProviderModel.Ntlm config);
          host = (if \<not> IsNull (MicrosoftADCSProviderModel.Host config)
                  then ValueString (MicrosoftADCSProviderModel.Host config) else host);
          username = (if \<not> IsNull (MicrosoftADCSProviderModel.Username config)
                      then ValueString (MicrosoftADCSProviderModel.Username config)
                      else username);
          password = (if \<not> IsNull (MicrosoftADCSProviderModel.Password config)
                      then ValueString (MicrosoftADCSProviderModel.Password config)
                      else password);
          krb5conf = (if \<not> IsNull (MicrosoftADCSProviderModel.Krb5Conf config)
                      then ValueString (MicrosoftADCSProviderModel.Krb5Conf config)
                      else krb5conf)
      in \<lparr>ClientConfig.Host = host, ClientConfig.Username = username,
          ClientConfig.Password = password, ClientConfig.Krb5Conf = krb5conf,
          ClientConfig.Ntlm = useNtlm\<rparr>)"

text \<open>The part that reports empty values (host, username, password, in this order).\<close>

definition Configure_missing :: "ClientConfig \<Rightarrow> diagnostics \<Rightarrow> diagnostics" where
  "Configure_missing values diags =
     (let d1 = (if ClientConfig.Host values = [] then Append diags [Missing_Host] else diags);
          d2 = (if ClientConfig.Username values = []
                then Append d1 [Missing_Username] else d1);
          d3 = (if ClientConfig.Password values = []
                then Append d2 [Missing_Password] else d2)
      in d3)"

text \<open>
  \<^verbatim>\<open>MicrosoftADCSProvider.Configure\<close>. \<open>NewClient\<close> is \<^verbatim>\<open>client.NewClient\<close>: the
  text of its error or a client. The second component lists the configurations
  \<^verbatim>\<open>NewClient\<close> was called with.
\<close>

definition Configure ::
  "(string \<Rightarrow> string) \<Rightarrow> (ClientConfig \<Rightarrow> string + 'c) \<Rightarrow> MicrosoftADCSProviderModel Request
     \<Rightarrow> 'c ConfigureResponse \<Rightarrow> 'c ConfigureResponse \<times> ClientConfig list" where
  "Configure Getenv NewClient req resp =
     (let config = Decoded req;
          diags = Append (ConfigureResponse.Diagnostics resp) (GetDiags req)
      in if HasError diags then (resp\<lparr>ConfigureResponse.Diagnostics := diags\<rparr>, [])
         else
           (let diags = Configure_unknown config diags
            in if HasError diags then (resp\<lparr>ConfigureResponse.Diagnostics := diags\<rparr>, [])
               else
                 (let clientConfig = Configure_values Getenv config;
                      diags = Configure_missing clientConfig diags
                  in if HasError diags
                     then (resp\<lparr>ConfigureResponse.Diagnostics := diags\<rparr>, [])
                     else
                       (case NewClient clientConfig of
                          Inl err \<Rightarrow>
                            (resp\<lparr>ConfigureResponse.Diagnostics :=
                               AddError diags
                                 ''Unable to Create Active Directory Certificate Services API Client''
                                 (''An unexpected error occurred when creating the Active Directory Certificate Services API client. ''
                                  @ ''If the error is not clear, please contact the provider developers.''
                                  @ [CHR 0x0A, CHR 0x0A]
                                  @ ''ADCS Client Error: '' @ err)\<rparr>,
                             [clientConfig])
                        | Inr client \<Rightarrow>
                            (resp\<lparr>ConfigureResponse.Diagnostics := diags,
                                  DataSourceData := Some client,
                                  ResourceData := Some client\<rparr>,
                             [clientConfig])))))"

section \<open>What the specification says, in its own words\<close>

text \<open>
  \<^verbatim>\<open>strings.Contains\<close>: the substring occurs somewhere.
\<close>

definition Contains :: "string \<Rightarrow> string \<Rightarrow> bool" where
  "Contains s substr = (Index s substr \<noteq> None)"

text \<open>
  Following the specification's words, "every occurrence of the sequence removed":
  \<open>occurs_at sub s i\<close> says that \<open>sub\<close> stands in \<open>s\<close> from position \<open>i\<close> on,
  \<open>covered sub s k\<close> that position \<open>k\<close> of \<open>s\<close> lies inside some occurrence, and
  \<open>without_occurrences sub s\<close> keeps, in order, the characters of \<open>s\<close> that lie in none.
\<close>

definition occurs_at :: "string \<Rightarrow> string \<Rightarrow> nat \<Rightarrow> bool" where
  "occurs_at sub s i = (sub \<noteq> [] \<and> take (length sub) (drop i s) = sub)"

definition covered :: "string \<Rightarrow> string \<Rightarrow> nat \<Rightarrow> bool" where
  "covered sub s k = list_ex (\<lambda>i. k < i + length sub \<and> occurs_at sub s i) [0..<Suc k]"

definition without_occurrences :: "string \<Rightarrow> string \<Rightarrow> string" where
  "without_occurrences sub s =
     map fst (filter (\<lambda>(c, k). \<not> covered sub s k) (zip s [0..<length s]))"

text \<open>
  Following the specification's words, "base64-decoded": the decoding of RFC 4648 with
  the standard alphabet and padding, \<open>None\<close> for a text that is not such an encoding.
  \<open>byte n\<close> is the character whose code is \<open>n mod 256\<close>.
\<close>

definition base64_alphabet :: string where
  "base64_alphabet = ''ABCDEFGHIJKLMNOPQRSTUVWXYZabcdefghijklmnopqrstuvwxyz0123456789+/''"

fun index_of :: "char \<Rightarrow> string \<Rightarrow> nat option" where
  "index_of c [] = None"
| "index_of c (x # xs) = (if c = x then Some 0 else map_option Suc (index_of c xs))"

definition sextets :: "string \<Rightarrow> nat option" where
  "sextets cs =
     foldl (\<lambda>acc c. case (acc, index_of c base64_alphabet) of
                       (Some n, Some d) \<Rightarrow> Some (n * 64 + d)
                     | _ \<Rightarrow> None) (Some 0) cs"

definition byte :: "nat \<Rightarrow> char" where
  "byte n = Char (odd n) (odd (n div 2)) (odd (n div 4)) (odd (n div 8))
                 (odd (n div 16)) (odd (n div 32)) (odd (n div 64)) (odd (n div 128))"

fun base64_decode :: "string \<Rightarrow> string option" where
  "base64_decode (a # b # c # d # rest) =
     (if rest = [] \<and> c = CHR ''='' \<and> d = CHR ''=''
      then map_option (\<lambda>n. [byte (n div 16)]) (sextets [a, b])
      else if rest = [] \<and> d = CHR ''=''
      then map_option (\<lambda>n. [byte (n div 1024), byte (n div 4)]) (sextets [a, b, c])
      else case (sextets [a, b, c, d], base64_decode rest) of
             (Some n, Some bytes) \<Rightarrow>
               Some ([byte (n div 65536), byte (n div 256), byte n] @ bytes)
           | _ \<Rightarrow> None)"
| "base64_decode [] = Some []"
| "base64_decode _ = None"

section \<open>Example inputs\<close>

text \<open>
  A certificate whose leaf text holds the sequence \<^verbatim>\<open>\r\<close>, a client that issues and
  returns it for every request, and a client whose every call fails.
\<close>

definition example_certificate :: Certificate where
  "example_certificate =
     \<lparr>Certificate.ID = ''525135'',
      Certificate.CertificateB64 = ''MIIC'' @ backslash_r @ ''Cg=='',
      Certificate.CertificateChainB64 = ''MIID''\<rparr>"

definition issuing_client :: ADCSClient where
  "issuing_client =
     \<lparr>RequestCertificate = (\<lambda>csr template attributes. Inr example_certificate),
      RetrieveCertificates = (\<lambda>id. Inr example_certificate)\<rparr>"

definition failing_client :: ADCSClient where
  "failing_client =
     \<lparr>RequestCertificate = (\<lambda>csr template attributes. Inl ''connection refused''),
      RetrieveCertificates = (\<lambda>id. Inl ''connection refused'')\<rparr>"

text \<open>A plan as Terraform hands it to Create: the computed attributes are unknown.\<close>

definition example_plan :: certificateCreateModel where
  "example_plan =
     \<lparr>certificateCreateModel.ID = StringUnknown,
      Attributes = StringNull,
      CSR = StringValue ''QUJD'',
      Template = StringValue ''User'',
      certificateCreateModel.CertificateB64 = StringUnknown,
      certificateCreateModel.CertificateChainB64 = StringUnknown,
      LastUpdated = StringUnknown\<rparr>"

definition example_now :: string where
  "example_now = ''Tuesday, 03-Nov-26 10:00:00 UTC''"

definition create_request :: "certificateCreateModel Request" where
  "create_request = \<lparr>Decoded = example_plan, GetDiags = []\<rparr>"

text \<open>The state of the resource once Create has run on the example.\<close>

definition read_request :: "certificateCreateModel Request" where
  "read_request =
     \<lparr>Decoded = \<lparr>certificateCreateModel.ID = StringValue ''525135'',
                   Attributes = StringNull,
                   CSR = StringValue ''QUJD'',
                   Template = StringValue ''User'',
                   certificateCreateModel.CertificateB64 =
                     StringValue (''MIIC'' @ backslash_r @ ''Cg==''),
                   certificateCreateModel.CertificateChainB64 = StringValue ''MIID'',
                   LastUpdated = StringValue example_now\<rparr>,
      GetDiags = []\<rparr>"

definition no_resource_state :: "certificateCreateModel Response" where
  "no_resource_state = \<lparr>State = None, Response.Diagnostics = []\<rparr>"

text \<open>A data-source configuration with the id of the example, and one with an empty id.\<close>

definition lookup_request :: "certificateModel Request" where
  "lookup_request =
     \<lparr>Decoded = \<lparr>certificateModel.ID = StringValue ''525135'',
                   certificateModel.CertificateB64 = StringNull,
                   certificateModel.CertificateChainB64 = StringNull\<rparr>,
      GetDiags = []\<rparr>"

definition empty_id_request :: "certificateModel Request" where
  "empty_id_request =
     \<lparr>Decoded = \<lparr>certificateModel.ID = StringValue [],
                   certificateModel.CertificateB64 = StringNull,
                   certificateModel.CertificateChainB64 = StringNull\<rparr>,
      GetDiags = []\<rparr>"

definition no_data_state :: "certificateModel Response" where
  "no_data_state = \<lparr>State = None, Response.Diagnostics = []\<rparr>"

text \<open>
  Three provider configurations: one that sets every attribute, one that sets the host
  only, one that sets nothing; an environment that sets the four variables, an empty
  environment, and a client constructor that succeeds.
\<close>

definition explicit_config :: "MicrosoftADCSProviderModel Request" where
  "explicit_config =
     \<lparr>Decoded = \<lparr>MicrosoftADCSProviderModel.Host = StringValue ''server.company.local'',
                   MicrosoftADCSProviderModel.Username = StringValue ''Username'',
                   MicrosoftADCSProviderModel.Password = StringValue ''secret'',
                   MicrosoftADCSProviderModel.Krb5Conf = StringValue ''/etc/krb5.conf'',
                   MicrosoftADCSProviderModel.Ntlm = BoolValue True\<rparr>,
      GetDiags = []\<rparr>"

definition host_only_config :: "MicrosoftADCSProviderModel Request" where
  "host_only_config =
     \<lparr>Decoded = \<lparr>MicrosoftADCSProviderModel.Host = StringValue ''server.company.local'',
                   MicrosoftADCSProviderModel.Username = StringNull,
                   MicrosoftADCSProviderModel.Password = StringNull,
                   MicrosoftADCSProviderModel.Krb5Conf = StringNull,
                   MicrosoftADCSProviderModel.Ntlm = BoolNull\<rparr>,
      GetDiags = []\<rparr>"

text \<open>A configuration whose host is not known yet and that sets nothing else.\<close>

definition unknown_host_config :: "MicrosoftADCSProviderModel Request" where
  "unknown_host_config =
     \<lparr>Decoded = \<lparr>MicrosoftADCSProviderModel.Host = StringUnknown,
                   MicrosoftADCSProviderModel.Username = StringNull,
                   MicrosoftADCSProviderModel.Password = StringNull,
                   MicrosoftADCSProviderModel.Krb5Conf = StringNull,
                   MicrosoftADCSProviderModel.Ntlm = BoolNull\<rparr>,
      GetDiags = []\<rparr>"

definition empty_config :: "MicrosoftADCSProviderModel Request" where
  "empty_config =
     \<lparr>Decoded = \<lparr>MicrosoftADCSProviderModel.Host = StringNull,
                   MicrosoftADCSProviderModel.Username = StringNull,
                   MicrosoftADCSProviderModel.Password = StringNull,
                   MicrosoftADCSProviderModel.Krb5Conf = StringNull,
                   MicrosoftADCSProviderModel.Ntlm = BoolNull\<rparr>,
      GetDiags = []\<rparr>"

definition example_environment :: "string \<Rightarrow> string" where
  "example_environment name =
     (if name = ''ADCS_HOST'' then ''other.company.local''
      else if name = ''ADCS_USERNAME'' then ''svc-terraform''
      else if name = ''ADCS_PASSWORD'' then ''hunter2''
      else if name = ''ADCS_KRB5CONF'' then ''/tmp/krb5.conf''
      else [])"

definition empty_environment :: "string \<Rightarrow> string" where
  "empty_environment name = []"

definition example_NewClient :: "ClientConfig \<Rightarrow> string + ADCSClient" where
  "example_NewClient clientConfig = Inr issuing_client"

definition unconfigured :: "ADCSClient ConfigureResponse" where
  "unconfigured =
     \<lparr>ConfigureResponse.Diagnostics = [], DataSourceData = None, ResourceData = None\<rparr>"

section \<open>Facts about the library functions\<close>

lemma HasPrefix_take: "HasPrefix s p \<longleftrightarrow> take (length p) s = p"
  by (induction s p rule: HasPrefix.induct) auto

lemma HasPrefix_length: "HasPrefix s p \<Longrightarrow> length p \<le> length s"
  by (induction s p rule: HasPrefix.induct) auto

lemma Index_bound: "Index s sub = Some j \<Longrightarrow> j + length sub \<le> length s"
proof (induction s arbitrary: j)
  case Nil
  then show ?case by (simp split: if_splits)
next
  case (Cons c cs)
  show ?case
  proof (cases "HasPrefix (c # cs) sub")
    case True
    with Cons.prems show ?thesis
      using HasPrefix_length [OF True] by simp
  next
    case False
    with Cons.prems obtain i where "Index cs sub = Some i" "j = Suc i"
      by auto
    with Cons.IH show ?thesis by simp
  qed
qed

lemma Replace_Nil: "Replace [] old new = []"
  by (cases "old = []") (simp_all add: Replace.simps)

lemma Replace_Cons:
  assumes "old \<noteq> []" "old \<noteq> new"
  shows "Replace (c # cs) old new =
    (if HasPrefix (c # cs) old then new @ Replace (drop (length old) (c # cs)) old new
     else c # Replace cs old new)"
proof (cases "HasPrefix (c # cs) old")
  case True
  with assms show ?thesis
    by (subst Replace.simps) simp
next
  case False
  show ?thesis
  proof (cases "Index cs old")
    case None
    with False assms show ?thesis
      by (simp add: Replace.simps [of "c # cs"] Replace.simps [of cs])
  next
    case (Some i)
    with False assms show ?thesis
      by (simp add: Replace.simps [of "c # cs"] Replace.simps [of cs])
  qed
qed

lemma length_Replace_le: "length (Replace s old []) \<le> length s"
proof (induction s old "[] :: string" rule: Replace.induct)
  case (1 s old)
  show ?case
  proof (cases "old = [] \<or> Index s old = None")
    case True
    then show ?thesis by (auto simp: Replace.simps [of s])
  next
    case False
    then obtain j where j: "Index s old = Some j" and o: "old \<noteq> []" by auto
    from 1 [OF _ j] o have "length (Replace (drop (j + length old) s) old []) \<le> length s - (j + length old)"
      by simp
    with j o show ?thesis
      by (simp add: Replace.simps [of s])
  qed
qed

lemma Replace_shorter:
  assumes "Contains s old" "old \<noteq> []"
  shows "length (Replace s old []) < length s"
proof -
  from assms obtain j where j: "Index s old = Some j"
    by (auto simp: Contains_def)
  let ?rest = "Replace (drop (j + length old) s) old []"
  have le: "length ?rest \<le> length s - (j + length old)"
    using length_Replace_le [of "drop (j + length old) s" old] by simp
  have bound: "j + length old \<le> length s"
    by (rule Index_bound [OF j])
  have pos: "0 < length old"
    using assms by simp
  have "Replace s old [] = take j s @ ?rest"
    using j assms by (simp add: Replace.simps [of s])
  then have "length (Replace s old []) = min (length s) j + length ?rest"
    by simp
  with le bound pos show ?thesis
    by linarith
qed

lemma Replace_differs: "Contains s old \<Longrightarrow> old \<noteq> [] \<Longrightarrow> Replace s old [] \<noteq> s"
  using Replace_shorter [of s old] by auto

lemma occurs_at_Cons_Suc: "occurs_at sub (a # s) (Suc i) = occurs_at sub s i"
  by (simp add: occurs_at_def)

lemma occurs_at_0: "occurs_at sub s 0 \<longleftrightarrow> sub \<noteq> [] \<and> HasPrefix s sub"
  by (simp add: occurs_at_def HasPrefix_take)

lemma covered_backslash_r:
  "covered backslash_r s k \<longleftrightarrow>
     occurs_at backslash_r s k \<or> (0 < k \<and> occurs_at backslash_r s (k - 1))"
proof -
  have "covered backslash_r s k \<longleftrightarrow> (\<exists>i\<le>k. k < i + 2 \<and> occurs_at backslash_r s i)"
    by (simp only: covered_def list_ex_iff set_upt Bex_def atLeastLessThan_iff)
       (auto simp: backslash_r_def less_Suc_eq_le)
  also have "\<dots> \<longleftrightarrow> occurs_at backslash_r s k \<or> (0 < k \<and> occurs_at backslash_r s (k - 1))"
  proof
    assume "\<exists>i\<le>k. k < i + 2 \<and> occurs_at backslash_r s i"
    then obtain i where i: "i \<le> k" "k < i + 2" "occurs_at backslash_r s i" by blast
    then have "i = k \<or> (0 < k \<and> i = k - 1)" by arith
    with i show "occurs_at backslash_r s k \<or> (0 < k \<and> occurs_at backslash_r s (k - 1))"
      by auto
  next
    assume "occurs_at backslash_r s k \<or> (0 < k \<and> occurs_at backslash_r s (k - 1))"
    then show "\<exists>i\<le>k. k < i + 2 \<and> occurs_at backslash_r s i"
    proof
      assume "occurs_at backslash_r s k"
      then show ?thesis by (intro exI [of _ k]) simp
    next
      assume "0 < k \<and> occurs_at backslash_r s (k - 1)"
      then show ?thesis by (intro exI [of _ "k - 1"]) auto
    qed
  qed
  finally show ?thesis .
qed

lemma without_occurrences_nths:
  "without_occurrences sub s = nths s {k. \<not> covered sub s k}"
  by (simp add: without_occurrences_def nths_def case_prod_unfold)

lemma without_keep:
  assumes "\<not> occurs_at backslash_r (a # s) 0"
  shows "without_occurrences backslash_r (a # s) = a # without_occurrences backslash_r s"
proof -
  have 0: "\<not> covered backslash_r (a # s) 0"
    using assms by (simp add: covered_backslash_r)
  have "covered backslash_r (a # s) (Suc j) \<longleftrightarrow> covered backslash_r s j" for j
  proof (cases j)
    case 0
    with assms show ?thesis
      by (simp add: covered_backslash_r occurs_at_Cons_Suc)
  next
    case (Suc n)
    then show ?thesis
      by (simp add: covered_backslash_r occurs_at_Cons_Suc)
  qed
  with 0 show ?thesis
    by (simp add: without_occurrences_nths nths_Cons)
qed

lemma without_skip:
  "without_occurrences backslash_r (CHR 0x5C # CHR ''r'' # t) = without_occurrences backslash_r t"
proof -
  let ?s = "CHR 0x5C # CHR ''r'' # t"
  have o: "occurs_at backslash_r ?s 0"
    by (simp add: occurs_at_def backslash_r_def)
  have n: "\<not> occurs_at backslash_r (CHR ''r'' # t) 0"
    by (simp add: occurs_at_def backslash_r_def)
  have 0: "covered backslash_r ?s 0" and 1: "covered backslash_r ?s (Suc 0)"
    using o by (simp_all add: covered_backslash_r)
  have "covered backslash_r ?s (Suc (Suc j)) \<longleftrightarrow> covered backslash_r t j" for j
  proof (cases j)
    case 0
    with n show ?thesis
      by (simp add: covered_backslash_r occurs_at_Cons_Suc)
  next
    case (Suc m)
    then show ?thesis
      by (simp add: covered_backslash_r occurs_at_Cons_Suc)
  qed
  with 0 1 show ?thesis
    by (simp add: without_occurrences_nths nths_Cons)
qed

lemma Replace_backslash_r: "Replace s backslash_r [] = without_occurrences backslash_r s"
proof (induction s rule: length_induct)
  case (1 s)
  have ne: "backslash_r \<noteq> []" "backslash_r \<noteq> ([] :: string)"
    by (simp_all add: backslash_r_def)
  show ?case
  proof (cases s)
    case Nil
    then show ?thesis
      by (simp add: Replace_Nil without_occurrences_def)
  next
    case (Cons a s')
    show ?thesis
    proof (cases "HasPrefix (a # s') backslash_r")
      case True
      then obtain t where t: "s = CHR 0x5C # CHR ''r'' # t"
        using Cons by (cases s') (auto simp: backslash_r_def)
      have step: "Replace s backslash_r [] = Replace (drop (length backslash_r) s) backslash_r []"
        using True by (simp add: Cons Replace_Cons [OF ne])
      have "drop (length backslash_r) s = t"
        by (simp add: t backslash_r_def)
      with step have "Replace s backslash_r [] = Replace t backslash_r []"
        by simp
      moreover have "Replace t backslash_r [] = without_occurrences backslash_r t"
        using 1 t by simp
      ultimately show ?thesis
        by (simp add: t without_skip)
    next
      case False
      then have "Replace s backslash_r [] = a # Replace s' backslash_r []"
        by (simp add: Cons Replace_Cons [OF ne])
      also have "Replace s' backslash_r [] = without_occurrences backslash_r s'"
        using 1 Cons by simp
      finally show ?thesis
        using False by (simp add: Cons without_keep occurs_at_0)
    qed
  qed
qed

section \<open>Facts about diagnostics\<close>

lemma Append_set: "set (Append diags ds) = set diags \<union> set ds"
  by (induction ds arbitrary: diags) auto

lemma Append_single: "Append diags [d] = (if d \<in> set diags then diags else diags @ [d])"
  by simp

lemma HasError_iff: "HasError diags \<longleftrightarrow> (\<exists>d \<in> set diags. Severity d = SeverityError)"
  by (auto simp: HasError_def Errors_def filter_empty_conv)

lemma HasError_Append: "HasError (Append diags ds) \<longleftrightarrow> HasError diags \<or> HasError ds"
  by (auto simp: HasError_iff Append_set)

lemma AddError_member: "NewErrorDiagnostic summary detail \<in> set (AddError diags summary detail)"
  by (simp add: AddError_def Append_set)

lemma HasError_AddError: "HasError (AddError diags summary detail)"
proof -
  have "HasError [NewErrorDiagnostic summary detail]"
    by (simp add: HasError_def Errors_def NewErrorDiagnostic_def)
  then show ?thesis
    by (simp only: AddError_def HasError_Append simp_thms)
qed

lemma Create_attr:
  "(if \<not> IsNull a \<and> \<not> IsUnknown a then ValueString a else []) = ValueString a"
  by (cases a) simp_all

section \<open>Create\<close>

text \<open>
  C1. Whenever the client's \<^verbatim>\<open>RequestCertificate\<close> returns a certificate, the state
  that Create stores is the plan with \<open>id\<close>, \<open>certificate_b64\<close> and
  \<open>certificate_chain_b64\<close> set to the identifier, certificate and chain of that
  certificate, unchanged, and \<open>last_updated\<close> set to the time of the call; the
  configured attributes stay as planned.
\<close>

theorem Create_persists_client_result:
  assumes "RequestCertificate client (ValueString (CSR (Decoded req)))
             (ValueString (Template (Decoded req)))
             (ValueString (Attributes (Decoded req))) = Inr certificates"
  shows "State (fst (certificateResource_Create client now req resp)) =
           Some ((Decoded req)
             \<lparr>certificateCreateModel.ID := StringValue (Certificate.ID certificates),
              certificateCreateModel.CertificateB64 :=
                StringValue (Certificate.CertificateB64 certificates),
              certificateCreateModel.CertificateChainB64 :=
                StringValue (Certificate.CertificateChainB64 certificates),
              LastUpdated := StringValue now\<rparr>)"
  using assms by (simp add: certificateResource_Create_def Let_def Create_attr)

theorem Create_persists_client_result_witness:
  "RequestCertificate issuing_client (ValueString (CSR (Decoded create_request)))
     (ValueString (Template (Decoded create_request)))
     (ValueString (Attributes (Decoded create_request))) = Inr example_certificate
   \<and> State (fst (certificateResource_Create issuing_client example_now create_request
         no_resource_state)) =
       Some \<lparr>certificateCreateModel.ID = StringValue ''525135'',
             Attributes = StringNull,
             CSR = StringValue ''QUJD'',
             Template = StringValue ''User'',
             certificateCreateModel.CertificateB64 =
               StringValue (''MIIC'' @ backslash_r @ ''Cg==''),
             certificateCreateModel.CertificateChainB64 = StringValue ''MIID'',
             LastUpdated = StringValue example_now\<rparr>"
proof -
  have h: "RequestCertificate issuing_client (ValueString (CSR (Decoded create_request)))
     (ValueString (Template (Decoded create_request)))
     (ValueString (Attributes (Decoded create_request))) = Inr example_certificate"
    by (simp add: issuing_client_def)
  show ?thesis
    using h Create_persists_client_result [OF h, of example_now no_resource_state]
    by (simp add: create_request_def example_plan_def example_certificate_def)
qed

text \<open>
  C2. Whenever the client's \<^verbatim>\<open>RequestCertificate\<close> returns an error, Create leaves
  the state of the response as it was, the response carries an error diagnostic with the
  client's message, and the client was called exactly once.
\<close>

theorem Create_failure_no_state:
  assumes "RequestCertificate client (ValueString (CSR (Decoded req)))
             (ValueString (Template (Decoded req)))
             (ValueString (Attributes (Decoded req))) = Inl err"
  shows "State (fst (certificateResource_Create client now req resp)) = State resp
         \<and> HasError (Response.Diagnostics (fst (certificateResource_Create client now req resp)))
         \<and> NewErrorDiagnostic ''Error creating certificate from singing request''
              (''Could not create certificate, unexpected error: '' @ err)
            \<in> set (Response.Diagnostics (fst (certificateResource_Create client now req resp)))
         \<and> snd (certificateResource_Create client now req resp) =
             [RequestCertificateCall (ValueString (CSR (Decoded req)))
                (ValueString (Template (Decoded req)))
                (ValueString (Attributes (Decoded req)))]"
  using assms
  by (simp add: certificateResource_Create_def Let_def Create_attr HasError_AddError
      AddError_member)

theorem Create_failure_no_state_witness:
  "RequestCertificate failing_client (ValueString (CSR (Decoded create_request)))
     (ValueString (Template (Decoded create_request)))
     (ValueString (Attributes (Decoded create_request))) = Inl ''connection refused''
   \<and> State (fst (certificateResource_Create failing_client example_now create_request
         no_resource_state)) = None
   \<and> HasError (Response.Diagnostics (fst (certificateResource_Create failing_client
         example_now create_request no_resource_state)))
   \<and> snd (certificateResource_Create failing_client example_now create_request
         no_resource_state) = [RequestCertificateCall ''QUJD'' ''User'' []]"
proof -
  have h: "RequestCertificate failing_client (ValueString (CSR (Decoded create_request)))
     (ValueString (Template (Decoded create_request)))
     (ValueString (Attributes (Decoded create_request))) = Inl ''connection refused''"
    by (simp add: failing_client_def)
  show ?thesis
    using h Create_failure_no_state [OF h, of example_now no_resource_state]
    by (simp add: create_request_def example_plan_def no_resource_state_def)
qed

text \<open>
  C6, as amended. Create passes the string value of \<open>certificate_signing_request\<close> to
  \<^verbatim>\<open>RequestCertificate\<close> as it is: the one remote call carries the values of the
  plan's CSR, template and attributes, and no decoding takes place.
\<close>

theorem Create_sends_csr_verbatim:
  "snd (certificateResource_Create client now req resp) =
     [RequestCertificateCall (ValueString (CSR (Decoded req)))
        (ValueString (Template (Decoded req)))
        (ValueString (Attributes (Decoded req)))]"
  by (simp add: certificateResource_Create_def Let_def Create_attr split: sum.splits)

text \<open>
  C6, as stated, fails: for the plan whose CSR is \<^verbatim>\<open>QUJD\<close>, the base64 encoding of
  \<^verbatim>\<open>ABC\<close>, the client receives \<^verbatim>\<open>QUJD\<close>.
\<close>

theorem Create_csr_not_decoded:
  "base64_decode (ValueString (CSR (Decoded create_request))) = Some ''ABC''
   \<and> snd (certificateResource_Create issuing_client example_now create_request
         no_resource_state) = [RequestCertificateCall ''QUJD'' ''User'' []]
   \<and> snd (certificateResource_Create issuing_client example_now create_request
         no_resource_state) \<noteq> [RequestCertificateCall ''ABC'' ''User'' []]"
  by (simp add: create_request_def example_plan_def certificateResource_Create_def
      issuing_client_def sextets_def base64_alphabet_def byte_def)

section \<open>Update\<close>

text \<open>
  C7. Update makes no remote call and returns the response it was given, so the state,
  and with it \<open>certificate_b64\<close> and \<open>certificate_chain_b64\<close>, is unchanged.
\<close>

theorem Update_changes_nothing:
  "snd (certificateResource_Update client req resp) = []
   \<and> fst (certificateResource_Update client req resp) = resp
   \<and> map_option certificateCreateModel.CertificateB64
        (State (fst (certificateResource_Update client req resp))) =
      map_option certificateCreateModel.CertificateB64 (State resp)
   \<and> map_option certificateCreateModel.CertificateChainB64
        (State (fst (certificateResource_Update client req resp))) =
      map_option certificateCreateModel.CertificateChainB64 (State resp)"
  by (simp add: certificateResource_Update_def)

section \<open>Read, of the resource and of the data source\<close>

lemma backslash_r_nonempty: "backslash_r \<noteq> []"
  by (simp add: backslash_r_def)

lemma Resource_Read_success:
  assumes "RetrieveCertificates client (ValueString (certificateCreateModel.ID (Decoded req)))
             = Inr certificates"
      and "\<not> HasError (Append (Response.Diagnostics resp) (GetDiags req))"
  shows "State (fst (certificateResource_Read client req resp)) =
           Some ((Decoded req)
             \<lparr>certificateCreateModel.ID := StringValue (Certificate.ID certificates),
              certificateCreateModel.CertificateB64 :=
                StringValue (Replace (Certificate.CertificateB64 certificates) backslash_r []),
              certificateCreateModel.CertificateChainB64 :=
                StringValue (Replace (Certificate.CertificateChainB64 certificates)
                  backslash_r [])\<rparr>)"
  using assms by (simp add: certificateResource_Read_def Let_def)

lemma DataSource_Read_success:
  assumes "RetrieveCertificates client (ValueString (certificateModel.ID (Decoded req)))
             = Inr certificates"
  shows "State (fst (certificateDataSource_Read client addr req resp)) =
           Some \<lparr>certificateModel.ID = StringValue (Certificate.ID certificates),
                 certificateModel.CertificateB64 =
                   StringValue (Certificate.CertificateB64 certificates),
                 certificateModel.CertificateChainB64 =
                   StringValue (Certificate.CertificateChainB64 certificates)\<rparr>"
  using assms by (simp add: certificateDataSource_Read_def Let_def)

text \<open>
  C3. When \<^verbatim>\<open>RetrieveCertificates\<close> returns a certificate for an id, and the stored
  state was decoded without an error so that the resource's Read gets to the remote call,
  the resource's Read stores as \<open>certificate_b64\<close> and \<open>certificate_chain_b64\<close> the
  client's texts with every occurrence of backslash-r removed, and the data source's Read
  stores the client's texts as they are, both under the same id. Each of the two fields
  whose client text contains the sequence therefore differs between the two paths.
\<close>

theorem Read_paths_differ:
  assumes "RetrieveCertificates client reqID = Inr certificates"
      and "ValueString (certificateCreateModel.ID (Decoded rreq)) = reqID"
      and "ValueString (certificateModel.ID (Decoded dreq)) = reqID"
      and "\<not> HasError (Append (Response.Diagnostics rresp) (GetDiags rreq))"
      and "State (fst (certificateResource_Read client rreq rresp)) = rstate"
      and "State (fst (certificateDataSource_Read client addr dreq dresp)) = dstate"
  shows "map_option certificateCreateModel.CertificateB64 rstate =
           Some (StringValue
             (without_occurrences backslash_r (Certificate.CertificateB64 certificates)))
       \<and> map_option certificateCreateModel.CertificateChainB64 rstate =
           Some (StringValue
             (without_occurrences backslash_r (Certificate.CertificateChainB64 certificates)))
       \<and> map_option certificateModel.CertificateB64 dstate =
           Some (StringValue (Certificate.CertificateB64 certificates))
       \<and> map_option certificateModel.CertificateChainB64 dstate =
           Some (StringValue (Certificate.CertificateChainB64 certificates))
       \<and> map_option certificateCreateModel.ID rstate = map_option certificateModel.ID dstate
       \<and> (Contains (Certificate.CertificateB64 certificates) backslash_r
            \<longrightarrow> map_option certificateCreateModel.CertificateB64 rstate
                  \<noteq> map_option certificateModel.CertificateB64 dstate)
       \<and> (Contains (Certificate.CertificateChainB64 certificates) backslash_r
            \<longrightarrow> map_option certificateCreateModel.CertificateChainB64 rstate
                  \<noteq> map_option certificateModel.CertificateChainB64 dstate)"
proof -
  have r: "rstate = Some ((Decoded rreq)
             \<lparr>certificateCreateModel.ID := StringValue (Certificate.ID certificates),
              certificateCreateModel.CertificateB64 :=
                StringValue (Replace (Certificate.CertificateB64 certificates) backslash_r []),
              certificateCreateModel.CertificateChainB64 :=
                StringValue (Replace (Certificate.CertificateChainB64 certificates)
                  backslash_r [])\<rparr>)"
    using Resource_Read_success [of client rreq certificates rresp] assms by simp
  have d: "dstate = Some \<lparr>certificateModel.ID = StringValue (Certificate.ID certificates),
                 certificateModel.CertificateB64 =
                   StringValue (Certificate.CertificateB64 certificates),
                 certificateModel.CertificateChainB64 =
                   StringValue (Certificate.CertificateChainB64 certificates)\<rparr>"
    using DataSource_Read_success [of client dreq certificates addr dresp] assms by simp
  have n: "Contains s backslash_r \<Longrightarrow> Replace s backslash_r [] \<noteq> s" for s
    by (rule Replace_differs [OF _ backslash_r_nonempty])
  show ?thesis
    using n by (auto simp: r d Replace_backslash_r [symmetric])
qed

theorem Read_paths_differ_witness:
  "RetrieveCertificates issuing_client ''525135'' = Inr example_certificate
   \<and> ValueString (certificateCreateModel.ID (Decoded read_request)) = ''525135''
   \<and> ValueString (certificateModel.ID (Decoded lookup_request)) = ''525135''
   \<and> \<not> HasError (Append (Response.Diagnostics no_resource_state) (GetDiags read_request))
   \<and> Contains (Certificate.CertificateB64 example_certificate) backslash_r
   \<and> map_option certificateCreateModel.CertificateB64
        (State (fst (certificateResource_Read issuing_client read_request no_resource_state)))
       = Some (StringValue ''MIICCg=='')
   \<and> map_option certificateModel.CertificateB64
        (State (fst (certificateDataSource_Read issuing_client 824634212352 lookup_request
           no_data_state)))
       = Some (StringValue (''MIIC'' @ backslash_r @ ''Cg==''))
   \<and> map_option certificateCreateModel.CertificateB64
        (State (fst (certificateResource_Read issuing_client read_request no_resource_state)))
       \<noteq> map_option certificateModel.CertificateB64
        (State (fst (certificateDataSource_Read issuing_client 824634212352 lookup_request
           no_data_state)))"
proof -
  have h1: "RetrieveCertificates issuing_client ''525135'' = Inr example_certificate"
    by (simp add: issuing_client_def)
  have h2: "ValueString (certificateCreateModel.ID (Decoded read_request)) = ''525135''"
    by (simp add: read_request_def)
  have h3: "ValueString (certificateModel.ID (Decoded lookup_request)) = ''525135''"
    by (simp add: lookup_request_def)
  have h4: "\<not> HasError (Append (Response.Diagnostics no_resource_state)
      (GetDiags read_request))"
    by (simp add: no_resource_state_def read_request_def HasError_def Errors_def)
  have c: "Contains (Certificate.CertificateB64 example_certificate) backslash_r"
    by (simp add: example_certificate_def Contains_def backslash_r_def)
  have w: "without_occurrences backslash_r (Certificate.CertificateB64 example_certificate)
      = ''MIICCg==''"
    by code_simp
  have b: "Certificate.CertificateB64 example_certificate = ''MIIC'' @ backslash_r @ ''Cg==''"
    by (simp add: example_certificate_def)
  show ?thesis
    using h1 h2 h3 h4 c w b
      Read_paths_differ [OF h1 h2 h3 h4 refl refl, of 824634212352 no_data_state]
    by simp
qed

text \<open>
  C10. Create stores the client's certificate and chain as they are. When the remote
  certificate is unchanged and its certificate or chain contains backslash-r, a Read of
  the state that Create stored, decoded without an error, stores that state with the two
  certificate fields stripped, which is not the state Create stored.
\<close>

theorem Read_after_Create_rewrites:
  assumes "RequestCertificate client (ValueString (CSR (Decoded creq)))
             (ValueString (Template (Decoded creq)))
             (ValueString (Attributes (Decoded creq))) = Inr certificates"
      and "RetrieveCertificates client (Certificate.ID certificates) = Inr certificates"
      and "Contains (Certificate.CertificateB64 certificates) backslash_r
           \<or> Contains (Certificate.CertificateChainB64 certificates) backslash_r"
      and "State (fst (certificateResource_Create client now creq cresp)) = Some created"
      and "Decoded rreq = created"
      and "\<not> HasError (Append (Response.Diagnostics rresp) (GetDiags rreq))"
  shows "certificateCreateModel.CertificateB64 created =
           StringValue (Certificate.CertificateB64 certificates)
       \<and> certificateCreateModel.CertificateChainB64 created =
           StringValue (Certificate.CertificateChainB64 certificates)
       \<and> State (fst (certificateResource_Read client rreq rresp)) =
           Some (created
             \<lparr>certificateCreateModel.CertificateB64 :=
                StringValue (Replace (Certificate.CertificateB64 certificates) backslash_r []),
              certificateCreateModel.CertificateChainB64 :=
                StringValue (Replace (Certificate.CertificateChainB64 certificates)
                  backslash_r [])\<rparr>)
       \<and> State (fst (certificateResource_Read client rreq rresp)) \<noteq> Some created"
proof -
  have created: "created = (Decoded creq)
             \<lparr>certificateCreateModel.ID := StringValue (Certificate.ID certificates),
              certificateCreateModel.CertificateB64 :=
                StringValue (Certificate.CertificateB64 certificates),
              certificateCreateModel.CertificateChainB64 :=
                StringValue (Certificate.CertificateChainB64 certificates),
              LastUpdated := StringValue now\<rparr>"
    using assms(1,4) by (simp add: certificateResource_Create_def Let_def Create_attr)
  have id: "ValueString (certificateCreateModel.ID (Decoded rreq)) = Certificate.ID certificates"
    using assms(5) by (simp add: created)
  have read: "State (fst (certificateResource_Read client rreq rresp)) =
           Some (created
             \<lparr>certificateCreateModel.ID := StringValue (Certificate.ID certificates),
              certificateCreateModel.CertificateB64 :=
                StringValue (Replace (Certificate.CertificateB64 certificates) backslash_r []),
              certificateCreateModel.CertificateChainB64 :=
                StringValue (Replace (Certificate.CertificateChainB64 certificates)
                  backslash_r [])\<rparr>)"
    using Resource_Read_success [of client rreq certificates rresp] assms(2,5,6) id by simp
  have n: "Contains s backslash_r \<Longrightarrow> Replace s backslash_r [] \<noteq> s" for s
    by (rule Replace_differs [OF _ backslash_r_nonempty])
  have differs: "created
             \<lparr>certificateCreateModel.CertificateB64 :=
                StringValue (Replace (Certificate.CertificateB64 certificates) backslash_r []),
              certificateCreateModel.CertificateChainB64 :=
                StringValue (Replace (Certificate.CertificateChainB64 certificates)
                  backslash_r [])\<rparr> \<noteq> created"
  proof
    assume eq: "created
             \<lparr>certificateCreateModel.CertificateB64 :=
                StringValue (Replace (Certificate.CertificateB64 certificates) backslash_r []),
              certificateCreateModel.CertificateChainB64 :=
                StringValue (Replace (Certificate.CertificateChainB64 certificates)
                  backslash_r [])\<rparr> = created"
    from arg_cong [OF eq, of certificateCreateModel.CertificateB64]
    have 1: "Replace (Certificate.CertificateB64 certificates) backslash_r []
        = Certificate.CertificateB64 certificates"
      by (simp add: created)
    from arg_cong [OF eq, of certificateCreateModel.CertificateChainB64]
    have 2: "Replace (Certificate.CertificateChainB64 certificates) backslash_r []
        = Certificate.CertificateChainB64 certificates"
      by (simp add: created)
    from assms(3) 1 2 n show False
      by blast
  qed
  have same: "created\<lparr>certificateCreateModel.ID := StringValue (Certificate.ID certificates)\<rparr>
      = created"
    by (simp add: created)
  have fields: "certificateCreateModel.CertificateB64 created =
           StringValue (Certificate.CertificateB64 certificates)
       \<and> certificateCreateModel.CertificateChainB64 created =
           StringValue (Certificate.CertificateChainB64 certificates)"
    by (simp add: created)
  from read same have "State (fst (certificateResource_Read client rreq rresp)) =
           Some (created
             \<lparr>certificateCreateModel.CertificateB64 :=
                StringValue (Replace (Certificate.CertificateB64 certificates) backslash_r []),
              certificateCreateModel.CertificateChainB64 :=
                StringValue (Replace (Certificate.CertificateChainB64 certificates)
                  backslash_r [])\<rparr>)"
    by simp
  with fields differs show ?thesis
    by simp
qed

theorem Read_after_Create_rewrites_witness:
  "RequestCertificate issuing_client (ValueString (CSR (Decoded create_request)))
     (ValueString (Template (Decoded create_request)))
     (ValueString (Attributes (Decoded create_request))) = Inr example_certificate
   \<and> RetrieveCertificates issuing_client (Certificate.ID example_certificate)
       = Inr example_certificate
   \<and> Contains (Certificate.CertificateB64 example_certificate) backslash_r
   \<and> State (fst (certificateResource_Create issuing_client example_now create_request
         no_resource_state)) = Some (Decoded read_request)
   \<and> \<not> HasError (Append (Response.Diagnostics no_resource_state) (GetDiags read_request))
   \<and> certificateCreateModel.CertificateB64 (Decoded read_request)
       = StringValue (''MIIC'' @ backslash_r @ ''Cg=='')
   \<and> map_option certificateCreateModel.CertificateB64
        (State (fst (certificateResource_Read issuing_client read_request no_resource_state)))
       = Some (StringValue ''MIICCg=='')
   \<and> State (fst (certificateResource_Read issuing_client read_request no_resource_state))
       \<noteq> Some (Decoded read_request)"
proof -
  have h1: "RequestCertificate issuing_client (ValueString (CSR (Decoded create_request)))
     (ValueString (Template (Decoded create_request)))
     (ValueString (Attributes (Decoded create_request))) = Inr example_certificate"
    by (simp add: issuing_client_def)
  have h2: "RetrieveCertificates issuing_client (Certificate.ID example_certificate)
       = Inr example_certificate"
    by (simp add: issuing_client_def)
  have c: "Contains (Certificate.CertificateB64 example_certificate) backslash_r"
    by (simp add: example_certificate_def Contains_def backslash_r_def)
  have h3: "Contains (Certificate.CertificateB64 example_certificate) backslash_r
      \<or> Contains (Certificate.CertificateChainB64 example_certificate) backslash_r"
    using c by simp
  have h4: "State (fst (certificateResource_Create issuing_client example_now create_request
         no_resource_state)) = Some (Decoded read_request)"
    by (simp add: certificateResource_Create_def issuing_client_def create_request_def
        example_plan_def read_request_def example_certificate_def no_resource_state_def)
  have h6: "\<not> HasError (Append (Response.Diagnostics no_resource_state)
      (GetDiags read_request))"
    by (simp add: no_resource_state_def read_request_def HasError_def Errors_def)
  have r: "Replace (Certificate.CertificateB64 example_certificate) backslash_r []
      = ''MIICCg==''"
    by code_simp
  have b: "Certificate.CertificateB64 example_certificate = ''MIIC'' @ backslash_r @ ''Cg==''"
    by (simp add: example_certificate_def)
  note t = Read_after_Create_rewrites [OF h1 h2 h3 h4 refl h6]
  have f: "certificateCreateModel.CertificateB64 (Decoded read_request)
       = StringValue (''MIIC'' @ backslash_r @ ''Cg=='')"
    using t b by simp
  have m: "map_option certificateCreateModel.CertificateB64
        (State (fst (certificateResource_Read issuing_client read_request no_resource_state)))
       = Some (StringValue ''MIICCg=='')"
    using t r by simp
  have ne: "State (fst (certificateResource_Read issuing_client read_request
      no_resource_state)) \<noteq> Some (Decoded read_request)"
    using t by blast
  from h1 h2 c h4 h6 f m ne show ?thesis
    by blast
qed

section \<open>Errors of the data source's Read\<close>

text \<open>
  C8. When \<^verbatim>\<open>RetrieveCertificates\<close> returns an error, the data source's Read adds an
  error diagnostic whose detail is the client's message as it is and whose summary is
  the text \<^verbatim>\<open>Unable to Read certificates for\<close> followed by a number; the state of the
  response stays as it was and the client was called exactly once.
\<close>

theorem DataSource_Read_failure:
  assumes "RetrieveCertificates client (ValueString (certificateModel.ID (Decoded req))) = Inl err"
  shows "NewErrorDiagnostic (''Unable to Read certificates for '' @ FormatUint addr) err
           \<in> set (Response.Diagnostics (fst (certificateDataSource_Read client addr req resp)))
         \<and> Detail (NewErrorDiagnostic (''Unable to Read certificates for '' @ FormatUint addr) err)
             = err
         \<and> HasError (Response.Diagnostics (fst (certificateDataSource_Read client addr req resp)))
         \<and> State (fst (certificateDataSource_Read client addr req resp)) = State resp
         \<and> snd (certificateDataSource_Read client addr req resp) =
             [RetrieveCertificatesCall (ValueString (certificateModel.ID (Decoded req)))]"
  using assms
  by (simp add: certificateDataSource_Read_def Let_def AddError_member HasError_AddError)
     (simp add: NewErrorDiagnostic_def)

theorem DataSource_Read_failure_witness:
  "RetrieveCertificates failing_client (ValueString (certificateModel.ID (Decoded lookup_request)))
     = Inl ''connection refused''
   \<and> Response.Diagnostics (fst (certificateDataSource_Read failing_client 824634212352
         lookup_request no_data_state)) =
       [\<lparr>Severity = SeverityError, AttributePath = None,
          Summary = ''Unable to Read certificates for 824634212352'',
          Detail = ''connection refused''\<rparr>]
   \<and> State (fst (certificateDataSource_Read failing_client 824634212352
         lookup_request no_data_state)) = None
   \<and> snd (certificateDataSource_Read failing_client 824634212352 lookup_request no_data_state)
       = [RetrieveCertificatesCall ''525135'']"
proof -
  have h: "RetrieveCertificates failing_client
      (ValueString (certificateModel.ID (Decoded lookup_request))) = Inl ''connection refused''"
    by (simp add: failing_client_def)
  have d: "Response.Diagnostics (fst (certificateDataSource_Read failing_client 824634212352
         lookup_request no_data_state)) =
       [\<lparr>Severity = SeverityError, AttributePath = None,
          Summary = ''Unable to Read certificates for 824634212352'',
          Detail = ''connection refused''\<rparr>]"
    by (simp add: certificateDataSource_Read_def failing_client_def lookup_request_def
        no_data_state_def AddError_def NewErrorDiagnostic_def FormatUint.simps)
  show ?thesis
    using h d DataSource_Read_failure [OF h, of 824634212352 no_data_state]
    by (simp add: lookup_request_def no_data_state_def)
qed

text \<open>
  C9, as amended. The data source's Read tests nothing about the id: it calls
  \<^verbatim>\<open>RetrieveCertificates\<close> exactly once with the string value of the id, whatever it
  is. With an empty id the lookup is delegated with the empty identifier, and when the
  client answers it with a certificate that certificate is stored.
\<close>

theorem DataSource_Read_delegates_any_id:
  "snd (certificateDataSource_Read client addr req resp) =
     [RetrieveCertificatesCall (ValueString (certificateModel.ID (Decoded req)))]
   \<and> (ValueString (certificateModel.ID (Decoded req)) = []
        \<longrightarrow> snd (certificateDataSource_Read client addr req resp) = [RetrieveCertificatesCall []]
          \<and> (\<forall>certificates. RetrieveCertificates client [] = Inr certificates \<longrightarrow>
               State (fst (certificateDataSource_Read client addr req resp)) =
                 Some \<lparr>certificateModel.ID = StringValue (Certificate.ID certificates),
                       certificateModel.CertificateB64 =
                         StringValue (Certificate.CertificateB64 certificates),
                       certificateModel.CertificateChainB64 =
                         StringValue (Certificate.CertificateChainB64 certificates)\<rparr>
               \<and> Response.Diagnostics (fst (certificateDataSource_Read client addr req resp)) =
                   Append (Response.Diagnostics resp) (GetDiags req)))"
  by (simp add: certificateDataSource_Read_def Let_def split: sum.splits)

theorem DataSource_Read_delegates_any_id_witness:
  "ValueString (certificateModel.ID (Decoded empty_id_request)) = []
   \<and> RetrieveCertificates issuing_client [] = Inr example_certificate
   \<and> snd (certificateDataSource_Read issuing_client 824634212352 empty_id_request no_data_state)
       = [RetrieveCertificatesCall []]
   \<and> State (fst (certificateDataSource_Read issuing_client 824634212352 empty_id_request
         no_data_state)) =
       Some \<lparr>certificateModel.ID = StringValue (Certificate.ID example_certificate),
             certificateModel.CertificateB64 =
               StringValue (Certificate.CertificateB64 example_certificate),
             certificateModel.CertificateChainB64 =
               StringValue (Certificate.CertificateChainB64 example_certificate)\<rparr>"
proof -
  have h: "ValueString (certificateModel.ID (Decoded empty_id_request)) = []"
    by (simp add: empty_id_request_def)
  have r: "RetrieveCertificates issuing_client [] = Inr example_certificate"
    by (simp add: issuing_client_def)
  show ?thesis
    using h r DataSource_Read_delegates_any_id
      [of issuing_client 824634212352 empty_id_request no_data_state]
    by simp
qed

text \<open>
  C9, as stated, fails: a Read with the empty id, on a client that answers every lookup,
  delegates the lookup with the empty identifier and stores the result without any
  diagnostic.
\<close>

theorem DataSource_Read_empty_id_succeeds:
  "ValueString (certificateModel.ID (Decoded empty_id_request)) = []
   \<and> snd (certificateDataSource_Read issuing_client 824634212352 empty_id_request no_data_state)
     = [RetrieveCertificatesCall []]
   \<and> fst (certificateDataSource_Read issuing_client 824634212352 empty_id_request no_data_state)
     = \<lparr>State = Some \<lparr>certificateModel.ID = StringValue ''525135'',
                       certificateModel.CertificateB64 =
                         StringValue (''MIIC'' @ backslash_r @ ''Cg==''),
                       certificateModel.CertificateChainB64 = StringValue ''MIID''\<rparr>,
        Response.Diagnostics = []\<rparr>"
  by (simp add: certificateDataSource_Read_def issuing_client_def empty_id_request_def
      no_data_state_def example_certificate_def)

section \<open>Configure\<close>

lemma Errors_Append_new:
  "Severity d = SeverityError \<Longrightarrow> d \<notin> set diags \<Longrightarrow> Errors (Append diags [d]) = Errors diags @ [d]"
  by (simp add: Errors_def)

lemma not_HasError_Errors: "\<not> HasError diags \<Longrightarrow> Errors diags = []"
  by (simp add: HasError_def)

lemma error_member_Errors: "d \<in> set diags \<Longrightarrow> Severity d = SeverityError \<Longrightarrow> d \<in> set (Errors diags)"
  by (simp add: Errors_def)

lemma Missing_severity:
  "Severity Missing_Host = SeverityError"
  "Severity Missing_Username = SeverityError"
  "Severity Missing_Password = SeverityError"
  by (simp_all add: Missing_Host_def Missing_Username_def Missing_Password_def
      NewAttributeErrorDiagnostic_def)

lemma Missing_distinct:
  "Missing_Host \<noteq> Missing_Username" "Missing_Host \<noteq> Missing_Password"
  "Missing_Username \<noteq> Missing_Password"
  by (simp_all add: Missing_Host_def Missing_Username_def Missing_Password_def
      NewAttributeErrorDiagnostic_def)

lemma Append_error_step:
  assumes "Severity d = SeverityError" "d \<notin> set (Errors diags)"
  shows "Errors (Append diags [d]) = Errors diags @ [d]"
proof -
  from assms have "d \<notin> set diags"
    using error_member_Errors by blast
  with assms(1) show ?thesis
    by (rule Errors_Append_new)
qed

lemma Errors_Configure_missing:
  assumes "\<not> HasError diags"
  shows "Errors (Configure_missing values diags) =
     (if ClientConfig.Host values = [] then [Missing_Host] else [])
     @ (if ClientConfig.Username values = [] then [Missing_Username] else [])
     @ (if ClientConfig.Password values = [] then [Missing_Password] else [])"
proof -
  let ?d1 = "if ClientConfig.Host values = [] then Append diags [Missing_Host] else diags"
  let ?d2 = "if ClientConfig.Username values = [] then Append ?d1 [Missing_Username] else ?d1"
  let ?d3 = "if ClientConfig.Password values = [] then Append ?d2 [Missing_Password] else ?d2"
  have 0: "Errors diags = []"
    using assms by (rule not_HasError_Errors)
  have 1: "Errors ?d1 = (if ClientConfig.Host values = [] then [Missing_Host] else [])"
    using 0 Append_error_step [of Missing_Host diags] by (simp add: Missing_severity)
  have 2: "Errors ?d2 = Errors ?d1
      @ (if ClientConfig.Username values = [] then [Missing_Username] else [])"
    using 1 Append_error_step [of Missing_Username ?d1] Missing_distinct
    by (simp add: Missing_severity)
  have 3: "Errors ?d3 = Errors ?d2
      @ (if ClientConfig.Password values = [] then [Missing_Password] else [])"
    using 1 2 Append_error_step [of Missing_Password ?d2] Missing_distinct
    by (simp add: Missing_severity)
  have "Configure_missing values diags = ?d3"
    by (simp add: Configure_missing_def Let_def)
  with 1 2 3 show ?thesis
    by simp
qed

lemma HasError_Configure_unknown:
  "HasError diags \<Longrightarrow> HasError (Configure_unknown config diags)"
  by (simp add: Configure_unknown_def Let_def HasError_Append del: Append.simps)

lemma Configure_at_fallback:
  assumes "\<not> HasError (Configure_unknown (Decoded req)
             (Append (ConfigureResponse.Diagnostics resp) (GetDiags req)))"
      and "HasError (Configure_missing (Configure_values Getenv (Decoded req))
             (Configure_unknown (Decoded req)
               (Append (ConfigureResponse.Diagnostics resp) (GetDiags req))))"
  shows "Configure Getenv NewClient req resp =
     (resp\<lparr>ConfigureResponse.Diagnostics :=
        Configure_missing (Configure_values Getenv (Decoded req))
          (Configure_unknown (Decoded req)
            (Append (ConfigureResponse.Diagnostics resp) (GetDiags req)))\<rparr>, [])"
proof -
  have "\<not> HasError (Append (ConfigureResponse.Diagnostics resp) (GetDiags req))"
    using assms(1) HasError_Configure_unknown by blast
  with assms show ?thesis
    by (simp add: Configure_def Let_def)
qed

lemma Configure_calls:
  "snd (Configure Getenv NewClient req resp) = []
   \<or> snd (Configure Getenv NewClient req resp) = [Configure_values Getenv (Decoded req)]"
  by (simp add: Configure_def Let_def split: sum.splits)

lemma Configure_stops_on_error:
  assumes "HasError (Configure_missing (Configure_values Getenv (Decoded req))
             (Configure_unknown (Decoded req)
               (Append (ConfigureResponse.Diagnostics resp) (GetDiags req))))"
  shows "HasError (ConfigureResponse.Diagnostics (fst (Configure Getenv NewClient req resp)))
       \<and> snd (Configure Getenv NewClient req resp) = []
       \<and> DataSourceData (fst (Configure Getenv NewClient req resp)) = DataSourceData resp
       \<and> ResourceData (fst (Configure Getenv NewClient req resp)) = ResourceData resp"
  using assms by (simp add: Configure_def Let_def)

lemma HasError_Configure_missing:
  assumes "ClientConfig.Host values = [] \<or> ClientConfig.Username values = []
           \<or> ClientConfig.Password values = []"
  shows "HasError (Configure_missing values diags)"
proof (cases "HasError diags")
  case True
  then show ?thesis
    by (auto simp add: Configure_missing_def Let_def HasError_Append simp del: Append.simps)
next
  case False
  from Errors_Configure_missing [OF False, of "values"] assms show ?thesis
    by (auto simp: HasError_def)
qed

text \<open>
  C5, as amended. When, after the fallback to the environment, host, user name or
  password is the empty string, Configure ends with an error, never calls
  \<^verbatim>\<open>NewClient\<close> and hands out no client. When moreover the configuration was decoded
  without an error and none of host, user name and password is unknown, so that Configure
  gets past its first two returns to the fallback, the errors of the response are one
  per empty field, in the order host, user name, password; the three diagnostics are
  distinct.
\<close>

theorem Configure_reports_each_missing_field:
  assumes "Configure_values Getenv (Decoded req) = values"
      and "ClientConfig.Host values = [] \<or> ClientConfig.Username values = []
           \<or> ClientConfig.Password values = []"
  shows "HasError (ConfigureResponse.Diagnostics (fst (Configure Getenv NewClient req resp)))
       \<and> snd (Configure Getenv NewClient req resp) = []
       \<and> DataSourceData (fst (Configure Getenv NewClient req resp)) = DataSourceData resp
       \<and> ResourceData (fst (Configure Getenv NewClient req resp)) = ResourceData resp
       \<and> distinct [Missing_Host, Missing_Username, Missing_Password]
       \<and> (\<not> HasError (Configure_unknown (Decoded req)
                (Append (ConfigureResponse.Diagnostics resp) (GetDiags req)))
           \<longrightarrow> Errors (ConfigureResponse.Diagnostics
                  (fst (Configure Getenv NewClient req resp))) =
                (if ClientConfig.Host values = [] then [Missing_Host] else [])
                @ (if ClientConfig.Username values = [] then [Missing_Username] else [])
                @ (if ClientConfig.Password values = [] then [Missing_Password] else []))"
proof -
  let ?d = "Configure_unknown (Decoded req)
              (Append (ConfigureResponse.Diagnostics resp) (GetDiags req))"
  have m: "HasError (Configure_missing (Configure_values Getenv (Decoded req)) ?d)"
    using assms HasError_Configure_missing by blast
  have "Errors (ConfigureResponse.Diagnostics (fst (Configure Getenv NewClient req resp))) =
          (if ClientConfig.Host values = [] then [Missing_Host] else [])
          @ (if ClientConfig.Username values = [] then [Missing_Username] else [])
          @ (if ClientConfig.Password values = [] then [Missing_Password] else [])"
    if u: "\<not> HasError ?d"
    using Configure_at_fallback [OF u m, of NewClient] Errors_Configure_missing [OF u, of "values"]
      assms(1)
    by simp
  moreover have "distinct [Missing_Host, Missing_Username, Missing_Password]"
    using Missing_distinct by simp
  ultimately show ?thesis
    using Configure_stops_on_error [OF m, of NewClient] by blast
qed

theorem Configure_reports_each_missing_field_witness:
  "Configure_values empty_environment (Decoded host_only_config) =
     \<lparr>ClientConfig.Host = ''server.company.local'', ClientConfig.Username = [],
      ClientConfig.Password = [], ClientConfig.Krb5Conf = [], ClientConfig.Ntlm = False\<rparr>
   \<and> \<not> HasError (Configure_unknown (Decoded host_only_config)
         (Append (ConfigureResponse.Diagnostics unconfigured) (GetDiags host_only_config)))
   \<and> Errors (ConfigureResponse.Diagnostics
         (fst (Configure empty_environment example_NewClient host_only_config unconfigured)))
       = [Missing_Username, Missing_Password]
   \<and> snd (Configure empty_environment example_NewClient host_only_config unconfigured) = []
   \<and> DataSourceData (fst (Configure empty_environment example_NewClient host_only_config
         unconfigured)) = None"
proof -
  have v: "Configure_values empty_environment (Decoded host_only_config) =
     \<lparr>ClientConfig.Host = ''server.company.local'', ClientConfig.Username = [],
      ClientConfig.Password = [], ClientConfig.Krb5Conf = [], ClientConfig.Ntlm = False\<rparr>"
    by (simp add: Configure_values_def host_only_config_def empty_environment_def)
  have u: "\<not> HasError (Configure_unknown (Decoded host_only_config)
         (Append (ConfigureResponse.Diagnostics unconfigured) (GetDiags host_only_config)))"
    by (simp add: Configure_unknown_def host_only_config_def unconfigured_def HasError_def
        Errors_def)
  show ?thesis
    using v u Configure_reports_each_missing_field
      [OF v, of example_NewClient unconfigured]
    by (simp add: unconfigured_def)
qed

text \<open>
  C5, as stated, fails: with an unknown host, no user name, no password and an empty
  environment, all three values are empty after the fallback, yet Configure returns where
  it has reported the unknown host, and the response holds that one error and none of
  the three for missing values.
\<close>

theorem Configure_unknown_host_hides_missing:
  "Configure_values empty_environment (Decoded unknown_host_config) =
     \<lparr>ClientConfig.Host = [], ClientConfig.Username = [], ClientConfig.Password = [],
      ClientConfig.Krb5Conf = [], ClientConfig.Ntlm = False\<rparr>
   \<and> ConfigureResponse.Diagnostics
        (fst (Configure empty_environment example_NewClient unknown_host_config unconfigured))
       = [Unknown_Host]
   \<and> Errors (ConfigureResponse.Diagnostics
        (fst (Configure empty_environment example_NewClient unknown_host_config unconfigured)))
       \<noteq> [Missing_Host, Missing_Username, Missing_Password]
   \<and> snd (Configure empty_environment example_NewClient unknown_host_config unconfigured) = []"
proof -
  have v: "Configure_values empty_environment (Decoded unknown_host_config) =
     \<lparr>ClientConfig.Host = [], ClientConfig.Username = [], ClientConfig.Password = [],
      ClientConfig.Krb5Conf = [], ClientConfig.Ntlm = False\<rparr>"
    by (simp add: Configure_values_def unknown_host_config_def empty_environment_def)
  have u: "Configure_unknown (Decoded unknown_host_config)
      (Append (ConfigureResponse.Diagnostics unconfigured) (GetDiags unknown_host_config))
      = [Unknown_Host]"
    by (simp add: Configure_unknown_def unknown_host_config_def unconfigured_def)
  have e: "Errors [Unknown_Host] = [Unknown_Host]"
    by (simp add: Errors_def Unknown_Host_def NewAttributeErrorDiagnostic_def)
  have c: "Configure empty_environment example_NewClient unknown_host_config unconfigured =
      (unconfigured\<lparr>ConfigureResponse.Diagnostics := [Unknown_Host]\<rparr>, [])"
    using u e
    by (simp add: Configure_def Let_def HasError_def)
       (simp add: unknown_host_config_def unconfigured_def Errors_def)
  show ?thesis
    using v e by (simp add: c)
qed

text \<open>
  C4. For each of host, user name, password and Kerberos configuration, the value
  Configure works with is the configuration's value when that is not null
  (\<^verbatim>\<open>ValueString\<close> of it, the known string itself), whatever the environment holds, and
  the value of \<^verbatim>\<open>ADCS_HOST\<close>, \<^verbatim>\<open>ADCS_USERNAME\<close>, \<^verbatim>\<open>ADCS_PASSWORD\<close> or
  \<^verbatim>\<open>ADCS_KRB5CONF\<close> when it is null. If Configure calls \<^verbatim>\<open>NewClient\<close>, it is once and
  with these values.
\<close>

theorem Configure_explicit_overrides_environment:
  "(\<not> IsNull (MicrosoftADCSProviderModel.Host config) \<longrightarrow>
      ClientConfig.Host (Configure_values Getenv config)
        = ValueString (MicrosoftADCSProviderModel.Host config))
   \<and> (IsNull (MicrosoftADCSProviderModel.Host config) \<longrightarrow>
      ClientConfig.Host (Configure_values Getenv config) = Getenv ''ADCS_HOST'')
   \<and> (\<not> IsNull (MicrosoftADCSProviderModel.Username config) \<longrightarrow>
      ClientConfig.Username (Configure_values Getenv config)
        = ValueString (MicrosoftADCSProviderModel.Username config))
   \<and> (IsNull (MicrosoftADCSProviderModel.Username config) \<longrightarrow>
      ClientConfig.Username (Configure_values Getenv config) = Getenv ''ADCS_USERNAME'')
   \<and> (\<not> IsNull (MicrosoftADCSProviderModel.Password config) \<longrightarrow>
      ClientConfig.Password (Configure_values Getenv config)
        = ValueString (MicrosoftADCSProviderModel.Password config))
   \<and> (IsNull (MicrosoftADCSProviderModel.Password config) \<longrightarrow>
      ClientConfig.Password (Configure_values Getenv config) = Getenv ''ADCS_PASSWORD'')
   \<and> (\<not> IsNull (MicrosoftADCSProviderModel.Krb5Conf config) \<longrightarrow>
      ClientConfig.Krb5Conf (Configure_values Getenv config)
        = ValueString (MicrosoftADCSProviderModel.Krb5Conf config))
   \<and> (IsNull (MicrosoftADCSProviderModel.Krb5Conf config) \<longrightarrow>
      ClientConfig.Krb5Conf (Configure_values Getenv config) = Getenv ''ADCS_KRB5CONF'')
   \<and> (snd (Configure Getenv NewClient req resp) = []
      \<or> snd (Configure Getenv NewClient req resp) = [Configure_values Getenv (Decoded req)])"
  using Configure_calls [of Getenv NewClient req resp]
  by (simp add: Configure_values_def Let_def)

theorem Configure_explicit_overrides_environment_witness:
  "\<not> IsNull (MicrosoftADCSProviderModel.Host (Decoded explicit_config))
   \<and> \<not> IsNull (MicrosoftADCSProviderModel.Username (Decoded explicit_config))
   \<and> \<not> IsNull (MicrosoftADCSProviderModel.Password (Decoded explicit_config))
   \<and> \<not> IsNull (MicrosoftADCSProviderModel.Krb5Conf (Decoded explicit_config))
   \<and> example_environment ''ADCS_HOST'' = ''other.company.local''
   \<and> Configure_values example_environment (Decoded explicit_config) =
       \<lparr>ClientConfig.Host = ''server.company.local'', ClientConfig.Username = ''Username'',
        ClientConfig.Password = ''secret'', ClientConfig.Krb5Conf = ''/etc/krb5.conf'',
        ClientConfig.Ntlm = True\<rparr>
   \<and> snd (Configure example_environment example_NewClient explicit_config unconfigured) =
       [\<lparr>ClientConfig.Host = ''server.company.local'', ClientConfig.Username = ''Username'',
         ClientConfig.Password = ''secret'', ClientConfig.Krb5Conf = ''/etc/krb5.conf'',
         ClientConfig.Ntlm = True\<rparr>]
   \<and> IsNull (MicrosoftADCSProviderModel.Host (Decoded empty_config))
   \<and> IsNull (MicrosoftADCSProviderModel.Username (Decoded empty_config))
   \<and> IsNull (MicrosoftADCSProviderModel.Password (Decoded empty_config))
   \<and> IsNull (MicrosoftADCSProviderModel.Krb5Conf (Decoded empty_config))
   \<and> Configure_values example_environment (Decoded empty_config) =
       \<lparr>ClientConfig.Host = ''other.company.local'', ClientConfig.Username = ''svc-terraform'',
        ClientConfig.Password = ''hunter2'', ClientConfig.Krb5Conf = ''/tmp/krb5.conf'',
        ClientConfig.Ntlm = False\<rparr>
   \<and> snd (Configure example_environment example_NewClient empty_config unconfigured) =
       [\<lparr>ClientConfig.Host = ''other.company.local'', ClientConfig.Username = ''svc-terraform'',
         ClientConfig.Password = ''hunter2'', ClientConfig.Krb5Conf = ''/tmp/krb5.conf'',
         ClientConfig.Ntlm = False\<rparr>]"
proof -
  have e: "\<not> IsNull (MicrosoftADCSProviderModel.Host (Decoded explicit_config))
      \<and> \<not> IsNull (MicrosoftADCSProviderModel.Username (Decoded explicit_config))
      \<and> \<not> IsNull (MicrosoftADCSProviderModel.Password (Decoded explicit_config))
      \<and> \<not> IsNull (MicrosoftADCSProviderModel.Krb5Conf (Decoded explicit_config))"
    by (simp add: explicit_config_def)
  have n: "IsNull (MicrosoftADCSProviderModel.Host (Decoded empty_config))
      \<and> IsNull (MicrosoftADCSProviderModel.Username (Decoded empty_config))
      \<and> IsNull (MicrosoftADCSProviderModel.Password (Decoded empty_config))
      \<and> IsNull (MicrosoftADCSProviderModel.Krb5Conf (Decoded empty_config))"
    by (simp add: empty_config_def)
  have ntlm: "ClientConfig.Ntlm (Configure_values example_environment (Decoded explicit_config))
      \<and> \<not> ClientConfig.Ntlm (Configure_values example_environment (Decoded empty_config))"
    by (simp add: Configure_values_def explicit_config_def empty_config_def)
  have v: "ValueString (MicrosoftADCSProviderModel.Host (Decoded explicit_config))
        = ''server.company.local''
      \<and> ValueString (MicrosoftADCSProviderModel.Username (Decoded explicit_config))
        = ''Username''
      \<and> ValueString (MicrosoftADCSProviderModel.Password (Decoded explicit_config))
        = ''secret''
      \<and> ValueString (MicrosoftADCSProviderModel.Krb5Conf (Decoded explicit_config))
        = ''/etc/krb5.conf''"
    by (simp add: explicit_config_def)
  have env: "example_environment ''ADCS_HOST'' = ''other.company.local''
      \<and> example_environment ''ADCS_USERNAME'' = ''svc-terraform''
      \<and> example_environment ''ADCS_PASSWORD'' = ''hunter2''
      \<and> example_environment ''ADCS_KRB5CONF'' = ''/tmp/krb5.conf''"
    by (simp add: example_environment_def)
  have c1: "snd (Configure example_environment example_NewClient explicit_config unconfigured)
      \<noteq> []"
    by (simp add: Configure_def Configure_unknown_def Configure_values_def
        Configure_missing_def explicit_config_def unconfigured_def example_NewClient_def
        HasError_def Errors_def)
  have c2: "snd (Configure example_environment example_NewClient empty_config unconfigured)
      \<noteq> []"
    by (simp add: Configure_def Configure_unknown_def Configure_values_def
        Configure_missing_def empty_config_def unconfigured_def example_NewClient_def
        example_environment_def HasError_def Errors_def)
  have r1: "Configure_values example_environment (Decoded explicit_config) =
       \<lparr>ClientConfig.Host = ''server.company.local'', ClientConfig.Username = ''Username'',
        ClientConfig.Password = ''secret'', ClientConfig.Krb5Conf = ''/etc/krb5.conf'',
        ClientConfig.Ntlm = True\<rparr>"
    using e v ntlm Configure_explicit_overrides_environment
      [of "Decoded explicit_config" example_environment example_NewClient explicit_config
        unconfigured]
    by (intro ClientConfig.equality) simp_all
  have r2: "Configure_values example_environment (Decoded empty_config) =
       \<lparr>ClientConfig.Host = ''other.company.local'', ClientConfig.Username = ''svc-terraform'',
        ClientConfig.Password = ''hunter2'', ClientConfig.Krb5Conf = ''/tmp/krb5.conf'',
        ClientConfig.Ntlm = False\<rparr>"
    using n env ntlm Configure_explicit_overrides_environment
      [of "Decoded empty_config" example_environment example_NewClient empty_config
        unconfigured]
    by (intro ClientConfig.equality) simp_all
  show ?thesis
    using e n env r1 r2 c1 c2
      Configure_explicit_overrides_environment
        [of "Decoded explicit_config" example_environment example_NewClient explicit_config
          unconfigured]
      Configure_explicit_overrides_environment
        [of "Decoded empty_config" example_environment example_NewClient empty_config
          unconfigured]
    by simp
qed

end
